theory Spec2Isabelle
  imports Main "HOL-Library.Word"
begin

section \<open>Policy evaluator (package policy)\<close>

text \<open>
  An \<open>Action\<close> is a Go string; the three recognised values are the constants below and
  the zero value is the empty string. A compiled regular expression is represented by
  its \<open>MatchString\<close> function: the regular expression engine itself is outside the
  repository.
\<close>

type_synonym Action = string

definition ActionDeny :: Action where
  "ActionDeny = ''deny''"

definition ActionRequireApproval :: Action where
  "ActionRequireApproval = ''require_approval''"

definition ActionAudit :: Action where
  "ActionAudit = ''audit''"

record Rule =
  Rule_Name :: string
  Rule_Action :: Action
  Rule_Methods :: "string list"
  Rule_Tools :: "string list"
  Rule_Direction :: string
  Rule_compiledPatterns :: "(string \<Rightarrow> bool) list"

record MatchResult =
  MR_Action :: Action
  MR_MatchedRules :: "string list"
  MR_DenyRule :: string
  MR_ApprovalRule :: string

text \<open>The zero value of \<open>MatchResult\<close> (\<open>var result MatchResult\<close>).\<close>

definition zeroMatchResult :: MatchResult where
  "zeroMatchResult =
     \<lparr>MR_Action = [], MR_MatchedRules = [], MR_DenyRule = [], MR_ApprovalRule = []\<rparr>"

fun contains :: "string list \<Rightarrow> string \<Rightarrow> bool" where
  "contains [] s = False"
| "contains (item # rest) s = (if item = s then True else contains rest s)"

definition ruleMatches :: "Rule \<Rightarrow> string \<Rightarrow> string \<Rightarrow> string \<Rightarrow> string \<Rightarrow> bool" where
  "ruleMatches rule direction method toolName payload =
     (if Rule_Direction rule \<noteq> [] \<and> Rule_Direction rule \<noteq> direction then False
      else if length (Rule_Methods rule) > 0 \<and> \<not> contains (Rule_Methods rule) method then False
      else if length (Rule_Tools rule) > 0 \<and> (toolName = [] \<or> \<not> contains (Rule_Tools rule) toolName)
        then False
      else list_all (\<lambda>re. re payload) (Rule_compiledPatterns rule))"

text \<open>One iteration of the loop of \<open>Engine.Evaluate\<close>.\<close>

definition evalStep ::
  "string \<Rightarrow> string \<Rightarrow> string \<Rightarrow> string \<Rightarrow> MatchResult \<Rightarrow> Rule \<Rightarrow> MatchResult" where
  "evalStep direction method toolName payload result rule =
     (if \<not> ruleMatches rule direction method toolName payload then result
      else
        let result1 = result\<lparr>MR_MatchedRules := MR_MatchedRules result @ [Rule_Name rule]\<rparr> in
        if Rule_Action rule = ActionDeny then
          (if MR_Action result1 \<noteq> ActionDeny
           then result1\<lparr>MR_Action := ActionDeny, MR_DenyRule := Rule_Name rule\<rparr>
           else result1)
        else if Rule_Action rule = ActionRequireApproval then
          (if MR_Action result1 \<noteq> ActionDeny
           then result1\<lparr>MR_Action := ActionRequireApproval, MR_ApprovalRule := Rule_Name rule\<rparr>
           else result1)
        else if Rule_Action rule = ActionAudit then
          (if MR_Action result1 = []
           then result1\<lparr>MR_Action := ActionAudit\<rparr>
           else result1)
        else result1)"

definition Evaluate ::
  "Rule list \<Rightarrow> string \<Rightarrow> string \<Rightarrow> string \<Rightarrow> string \<Rightarrow> MatchResult" where
  "Evaluate rules direction method toolName payload =
     foldl (evalStep direction method toolName payload) zeroMatchResult rules"

text \<open>The rules of the list that match the message, in list order.\<close>

definition matching :: "Rule list \<Rightarrow> string \<Rightarrow> string \<Rightarrow> string \<Rightarrow> string \<Rightarrow> Rule list" where
  "matching rules direction method toolName payload =
     filter (\<lambda>r. ruleMatches r direction method toolName payload) rules"

text \<open>The highest-precedence action of a list of rules: deny, then require\_approval,
  then audit, then none (the empty string).\<close>

definition highestAction :: "Rule list \<Rightarrow> Action" where
  "highestAction ms =
     (if \<exists>r \<in> set ms. Rule_Action r = ActionDeny then ActionDeny
      else if \<exists>r \<in> set ms. Rule_Action r = ActionRequireApproval then ActionRequireApproval
      else if \<exists>r \<in> set ms. Rule_Action r = ActionAudit then ActionAudit
      else [])"

definition firstWithAction :: "Action \<Rightarrow> Rule list \<Rightarrow> string" where
  "firstWithAction a ms =
     (case find (\<lambda>r. Rule_Action r = a) ms of None \<Rightarrow> [] | Some r \<Rightarrow> Rule_Name r)"

text \<open>The last rule with action \<open>a\<close> that comes before the first deny rule.\<close>

definition lastBeforeDeny :: "Action \<Rightarrow> Rule list \<Rightarrow> string" where
  "lastBeforeDeny a ms =
     (case find (\<lambda>r. Rule_Action r = a)
             (rev (takeWhile (\<lambda>r. Rule_Action r \<noteq> ActionDeny) ms)) of
        None \<Rightarrow> [] | Some r \<Rightarrow> Rule_Name r)"

definition knownAction :: "Action \<Rightarrow> bool" where
  "knownAction a = (a = [] \<or> a = ActionAudit \<or> a = ActionRequireApproval \<or> a = ActionDeny)"

section \<open>Messages (package proxy, message.go)\<close>

text \<open>
  A Go byte slice is a list of characters; a slice that may be \<open>nil\<close> is an option, with
  \<open>None\<close> for \<open>nil\<close>. An \<open>error\<close> is its message, with \<open>None\<close> for \<open>nil\<close>.
\<close>

type_synonym bytes = string

type_synonym Direction = string

definition DirHostToServer :: Direction where
  "DirHostToServer = ''host_to_server''"

definition DirServerToHost :: Direction where
  "DirServerToHost = ''server_to_host''"

type_synonym MessageKind = string

definition KindRequest :: MessageKind where
  "KindRequest = ''request''"

definition KindResponse :: MessageKind where
  "KindResponse = ''response''"

definition KindNotification :: MessageKind where
  "KindNotification = ''notification''"

definition KindError :: MessageKind where
  "KindError = ''error''"

record JSONRPCError =
  Err_Code :: int
  Err_Message :: string
  Err_Data :: "bytes option"

record JSONRPCMessage =
  Msg_JSONRPC :: string
  Msg_ID :: "bytes option"
  Msg_Method :: string
  Msg_Params :: "bytes option"
  Msg_Result :: "bytes option"
  Msg_Error :: "JSONRPCError option"

definition zeroJSONRPCMessage :: JSONRPCMessage where
  "zeroJSONRPCMessage = \<lparr>Msg_JSONRPC = [], Msg_ID = None, Msg_Method = [], Msg_Params = None,
     Msg_Result = None, Msg_Error = None\<rparr>"

definition Kind :: "JSONRPCMessage \<Rightarrow> MessageKind" where
  "Kind m =
     (if Msg_Method m \<noteq> [] \<and> Msg_ID m \<noteq> None then KindRequest
      else if Msg_Method m \<noteq> [] \<and> Msg_ID m = None then KindNotification
      else if Msg_Error m \<noteq> None then KindError
      else KindResponse)"

text \<open>The dynamically typed values that the interceptors store in the metadata map.\<close>

datatype MetaValue = MString string | MStrings "string list" | MBool bool | MInt int

record InterceptedMessage =
  IM_Timestamp :: nat
  IM_SessionID :: string
  IM_Direction :: Direction
  IM_RawBytes :: "bytes option"
  IM_Parsed :: JSONRPCMessage
  IM_ParseErr :: "string option"
  IM_Metadata :: "(string \<rightharpoonup> MetaValue) option"

text \<open>
  A parsed JSON value, as \<open>json.Unmarshal\<close> stores it in an \<open>any\<close>: \<open>nil\<close>, a bool, a
  number, a string, a \<open>[]any\<close> or a \<open>map[string]any\<close>. The object is kept as a list of
  fields.
\<close>

datatype json =
  JNull
| JBool bool
| JNumber string
| JString string
| JArray "json list"
| JObject "(string \<times> json) list"

text \<open>
  The functions of the packages \<open>encoding/json\<close> and \<open>strconv\<close> that the proxy calls,
  one field per call site and target type. They are outside the repository and are taken
  as a parameter. A decoder returns \<open>None\<close> (or an error message beside the value) when
  \<open>Unmarshal\<close> returns an error; an encoder returns \<open>None\<close> when \<open>Marshal\<close> does.
\<close>

record JSONLib =
  unmarshalMessage :: "bytes \<Rightarrow> JSONRPCMessage \<times> string option"
  marshalMessage :: "JSONRPCMessage \<Rightarrow> bytes option"
  unmarshalName :: "bytes \<Rightarrow> string option"
  unmarshalAny :: "bytes \<Rightarrow> json option"
  marshalAny :: "json \<Rightarrow> bytes option"
  strconvQuote :: "string \<Rightarrow> string"

text \<open>\<open>ParseMessage\<close>: decode into a zero-initialised message and return both results.\<close>

definition ParseMessage :: "JSONLib \<Rightarrow> bytes \<Rightarrow> JSONRPCMessage \<times> string option" where
  "ParseMessage L raw = unmarshalMessage L raw"

text \<open>\<open>MakeErrorResponse\<close>: the marshalling error is discarded, leaving \<open>nil\<close> data.\<close>

definition MakeErrorResponse :: "JSONLib \<Rightarrow> bytes option \<Rightarrow> int \<Rightarrow> string \<Rightarrow> bytes option" where
  "MakeErrorResponse L ident code message =
     marshalMessage L \<lparr>Msg_JSONRPC = ''2.0'', Msg_ID = ident, Msg_Method = [], Msg_Params = None,
        Msg_Result = None,
        Msg_Error = Some \<lparr>Err_Code = code, Err_Message = message, Err_Data = None\<rparr>\<rparr>"

text \<open>\<open>policy.ExtractToolName\<close>.\<close>

definition ExtractToolName :: "JSONLib \<Rightarrow> bytes option \<Rightarrow> string" where
  "ExtractToolName L params =
     (case params of
        None \<Rightarrow> []
      | Some raw \<Rightarrow> (case unmarshalName L raw of None \<Rightarrow> [] | Some n \<Rightarrow> n))"

section \<open>Shared state of the proxy\<close>

record LogEntry =
  LE_ID :: int
  LE_Timestamp :: nat
  LE_SessionID :: string
  LE_Direction :: string
  LE_Kind :: string
  LE_Method :: string
  LE_MsgID :: string
  LE_Payload :: string
  LE_SizeBytes :: int
  LE_Blocked :: bool
  LE_Audit :: bool
  LE_ScrubCount :: int
  LE_MatchedRules :: "string list"
  LE_ToolName :: string
  LE_PolicyAction :: string

text \<open>
  Everything a pump and its interceptors can change: the two output streams (each the
  list of \<open>Write\<close> calls it received), the scrubber's counter, the store's write channel
  and its capacity, the entries handed to the event bus, and the lines of the logger.
  \<open>W_broken\<close> says which stream fails a write, \<open>W_cancelled\<close> whether the context is done.
\<close>

datatype Stream = Stdout | DownStdin

record World =
  W_stdout :: "bytes list"
  W_downStdin :: "bytes list"
  W_totalScrubbed :: int
  W_writeCh :: "LogEntry list"
  W_writeCap :: nat
  W_published :: "LogEntry list"
  W_slog :: "string list"
  W_broken :: "Stream \<Rightarrow> bool"
  W_cancelled :: bool
  W_now :: nat

text \<open>\<open>Write\<close> on a stream: \<open>None\<close> on success, the error otherwise.\<close>

definition writeTo :: "Stream \<Rightarrow> bytes \<Rightarrow> World \<Rightarrow> string option \<times> World" where
  "writeTo st b w =
     (if W_broken w st then (Some ''write error'', w)
      else (None, (case st of
                     Stdout \<Rightarrow> w\<lparr>W_stdout := W_stdout w @ [b]\<rparr>
                   | DownStdin \<Rightarrow> w\<lparr>W_downStdin := W_downStdin w @ [b]\<rparr>)))"

text \<open>\<open>SQLiteStore.LogMessage\<close>: a non-blocking send on the bounded write channel.\<close>

definition LogMessage :: "LogEntry \<Rightarrow> World \<Rightarrow> World" where
  "LogMessage entry w =
     (if length (W_writeCh w) < W_writeCap w
      then w\<lparr>W_writeCh := W_writeCh w @ [entry]\<rparr>
      else w\<lparr>W_slog := W_slog w @ [''write buffer full, dropping message'']\<rparr>)"

definition Publish :: "LogEntry \<Rightarrow> World \<Rightarrow> World" where
  "Publish entry w = w\<lparr>W_published := W_published w @ [entry]\<rparr>"

section \<open>Interceptors\<close>

text \<open>
  An interceptor receives the message and the shared state and returns the pair
  \<open>(bytes, error)\<close> of the Go method together with the message (whose metadata it may
  have written) and the shared state.
\<close>

type_synonym Interceptor =
  "InterceptedMessage \<Rightarrow> World \<Rightarrow> (bytes option \<times> string option) \<times> InterceptedMessage \<times> World"

definition MetaKeyPolicyAction :: string where
  "MetaKeyPolicyAction = ''policy_action''"

definition MetaKeyPolicyRule :: string where
  "MetaKeyPolicyRule = ''policy_rule''"

definition MetaKeyMatchedRules :: string where
  "MetaKeyMatchedRules = ''matched_rules''"

definition MetaKeyAudit :: string where
  "MetaKeyAudit = ''audit''"

definition MetaKeyScrubCount :: string where
  "MetaKeyScrubCount = ''scrub_count''"

text \<open>The map to write into: a \<open>nil\<close> metadata map is replaced by a fresh empty one.\<close>

definition metaOf :: "InterceptedMessage \<Rightarrow> (string \<rightharpoonup> MetaValue)" where
  "metaOf msg = (case IM_Metadata msg of None \<Rightarrow> Map.empty | Some m \<Rightarrow> m)"

definition rawString :: "bytes option \<Rightarrow> string" where
  "rawString b = (case b of None \<Rightarrow> [] | Some s \<Rightarrow> s)"

subsection \<open>PolicyInterceptor\<close>

definition PolicyIntercept :: "JSONLib \<Rightarrow> Rule list \<Rightarrow> Interceptor" where
  "PolicyIntercept L rules msg w =
     (if IM_ParseErr msg \<noteq> None then ((IM_RawBytes msg, None), msg, w)
      else
        let toolName = (if Msg_Method (IM_Parsed msg) = ''tools/call''
                        then ExtractToolName L (Msg_Params (IM_Parsed msg)) else []);
            result = Evaluate rules (IM_Direction msg) (Msg_Method (IM_Parsed msg)) toolName
                       (rawString (IM_RawBytes msg))
        in
        if length (MR_MatchedRules result) = 0 then ((IM_RawBytes msg, None), msg, w)
        else
          let md = (metaOf msg)(MetaKeyMatchedRules \<mapsto> MStrings (MR_MatchedRules result)) in
          if MR_Action result = ActionDeny then
            ((None, Some (''blocked by policy rule '' @ strconvQuote L (MR_DenyRule result))),
             msg\<lparr>IM_Metadata := Some (md(MetaKeyPolicyAction \<mapsto> MString ActionDeny,
                                         MetaKeyPolicyRule \<mapsto> MString (MR_DenyRule result)))\<rparr>, w)
          else if MR_Action result = ActionRequireApproval then
            ((IM_RawBytes msg, None),
             msg\<lparr>IM_Metadata := Some (md(MetaKeyPolicyAction \<mapsto> MString ActionRequireApproval,
                                         MetaKeyPolicyRule \<mapsto> MString (MR_ApprovalRule result)))\<rparr>, w)
          else if MR_Action result = ActionAudit then
            ((IM_RawBytes msg, None),
             msg\<lparr>IM_Metadata := Some (md(MetaKeyPolicyAction \<mapsto> MString ActionAudit,
                                         MetaKeyAudit \<mapsto> MBool True))\<rparr>, w)
          else ((IM_RawBytes msg, None), msg\<lparr>IM_Metadata := Some md\<rparr>, w))"

subsection \<open>LoggingInterceptor\<close>

definition extractToolNameFromParams :: "JSONLib \<Rightarrow> bytes option \<Rightarrow> string" where
  "extractToolNameFromParams L params =
     (case params of
        None \<Rightarrow> []
      | Some raw \<Rightarrow> (case unmarshalName L raw of None \<Rightarrow> [] | Some n \<Rightarrow> n))"

definition loggingEntry :: "JSONLib \<Rightarrow> InterceptedMessage \<Rightarrow> LogEntry" where
  "loggingEntry L msg =
     (let entry = \<lparr>LE_ID = 0, LE_Timestamp = IM_Timestamp msg, LE_SessionID = IM_SessionID msg,
            LE_Direction = IM_Direction msg, LE_Kind = Kind (IM_Parsed msg),
            LE_Method = Msg_Method (IM_Parsed msg), LE_MsgID = rawString (Msg_ID (IM_Parsed msg)),
            LE_Payload = rawString (IM_RawBytes msg),
            LE_SizeBytes = int (length (rawString (IM_RawBytes msg))),
            LE_Blocked = False, LE_Audit = False, LE_ScrubCount = 0, LE_MatchedRules = [],
            LE_ToolName = [], LE_PolicyAction = []\<rparr>;
          entry1 = (case IM_Metadata msg of
             None \<Rightarrow> entry
           | Some md \<Rightarrow>
               let e1 = (case md MetaKeyAudit of Some (MBool True) \<Rightarrow> entry\<lparr>LE_Audit := True\<rparr>
                         | _ \<Rightarrow> entry);
                   e2 = (case md MetaKeyScrubCount of Some (MInt c) \<Rightarrow> e1\<lparr>LE_ScrubCount := c\<rparr>
                         | _ \<Rightarrow> e1);
                   e3 = (case md MetaKeyMatchedRules of
                           Some (MStrings rs) \<Rightarrow> e2\<lparr>LE_MatchedRules := rs\<rparr> | _ \<Rightarrow> e2)
               in (case md MetaKeyPolicyAction of
                     Some (MString a) \<Rightarrow> e3\<lparr>LE_PolicyAction := a\<rparr> | _ \<Rightarrow> e3))
      in if Msg_Method (IM_Parsed msg) = ''tools/call''
         then entry1\<lparr>LE_ToolName := extractToolNameFromParams L (Msg_Params (IM_Parsed msg))\<rparr>
         else entry1)"

definition LoggingIntercept :: "JSONLib \<Rightarrow> Interceptor" where
  "LoggingIntercept L msg w =
     (let entry = loggingEntry L msg
      in ((IM_RawBytes msg, None), msg, Publish entry (LogMessage entry w)))"

subsection \<open>ScrubberInterceptor\<close>

text \<open>
  A compiled regular expression is represented by the two methods the scrubber calls;
  the regular expression engine is outside the repository.
\<close>

record Regexp =
  FindAllStringIndex :: "string \<Rightarrow> (nat \<times> nat) list"
  ReplaceAllString :: "string \<Rightarrow> string \<Rightarrow> string"

record piiPattern =
  PII_Name :: string
  PII_Regex :: Regexp
  PII_Label :: string

record ScrubberInterceptor =
  S_patterns :: "piiPattern list"
  S_enabled :: bool

text \<open>One iteration of the loop of \<open>scrubString\<close>.\<close>

definition scrubStep :: "string \<times> int \<Rightarrow> piiPattern \<Rightarrow> string \<times> int" where
  "scrubStep rc p =
     (let matches = FindAllStringIndex (PII_Regex p) (fst rc) in
      if length matches > 0
      then (ReplaceAllString (PII_Regex p) (fst rc) (''[REDACTED:'' @ PII_Label p @ '']''),
            snd rc + int (length matches))
      else rc)"

definition scrubString :: "piiPattern list \<Rightarrow> string \<Rightarrow> string \<times> int" where
  "scrubString ps input = foldl scrubStep (input, 0) ps"

text \<open>
  \<open>walkAndScrub\<close>, with the counter behind the pointer passed in and returned. The two
  auxiliary functions are the loops over the elements of an array and over the fields of
  an object; the result object gets the same keys.
\<close>

fun walkAndScrub :: "piiPattern list \<Rightarrow> json \<Rightarrow> int \<Rightarrow> json \<times> int"
  and walkElems :: "piiPattern list \<Rightarrow> json list \<Rightarrow> int \<Rightarrow> json list \<times> int"
  and walkFields :: "piiPattern list \<Rightarrow> (string \<times> json) list \<Rightarrow> int \<Rightarrow> (string \<times> json) list \<times> int"
where
  "walkAndScrub ps (JString val) count =
     (case scrubString ps val of (scrubbed, c) \<Rightarrow> (JString scrubbed, count + c))"
| "walkAndScrub ps (JObject val) count =
     (case walkFields ps val count of (result, count1) \<Rightarrow> (JObject result, count1))"
| "walkAndScrub ps (JArray val) count =
     (case walkElems ps val count of (result, count1) \<Rightarrow> (JArray result, count1))"
| "walkAndScrub ps JNull count = (JNull, count)"
| "walkAndScrub ps (JBool b) count = (JBool b, count)"
| "walkAndScrub ps (JNumber n) count = (JNumber n, count)"
| "walkElems ps [] count = ([], count)"
| "walkElems ps (v # vs) count =
     (case walkAndScrub ps v count of (v1, count1) \<Rightarrow>
        (case walkElems ps vs count1 of (vs1, count2) \<Rightarrow> (v1 # vs1, count2)))"
| "walkFields ps [] count = ([], count)"
| "walkFields ps ((k, v) # kvs) count =
     (case walkAndScrub ps v count of (v1, count1) \<Rightarrow>
        (case walkFields ps kvs count1 of (kvs1, count2) \<Rightarrow> ((k, v1) # kvs1, count2)))"

text \<open>
  Specification side: \<open>mapStrings f\<close> applies \<open>f\<close> to every string leaf and to nothing
  else; \<open>objectKeys\<close> lists every object key of a value, at any depth.
\<close>

fun mapStrings :: "(string \<Rightarrow> string) \<Rightarrow> json \<Rightarrow> json" where
  "mapStrings f (JString s) = JString (f s)"
| "mapStrings f (JArray vs) = JArray (map (mapStrings f) vs)"
| "mapStrings f (JObject kvs) = JObject (map (\<lambda>kv. (fst kv, mapStrings f (snd kv))) kvs)"
| "mapStrings f v = v"

fun objectKeys :: "json \<Rightarrow> string list" where
  "objectKeys (JObject kvs) = concat (map (\<lambda>kv. fst kv # objectKeys (snd kv)) kvs)"
| "objectKeys (JArray vs) = concat (map objectKeys vs)"
| "objectKeys v = []"

text \<open>
  Specification side of the string redaction, following the description of the
  redactor: the patterns are applied in the configured order, each one that has a match
  in the current text replacing all its matches by \<open>[REDACTED:<label>]\<close>;
  \<open>matchCount\<close> adds up the matches found on the way and \<open>leafMatches\<close> adds them up
  over the string leaves of a value.
\<close>

definition redactionText :: "piiPattern \<Rightarrow> string" where
  "redactionText p = ''[REDACTED:'' @ PII_Label p @ '']''"

fun redactAll :: "piiPattern list \<Rightarrow> string \<Rightarrow> string" where
  "redactAll [] s = s"
| "redactAll (p # ps) s =
     redactAll ps (if FindAllStringIndex (PII_Regex p) s = [] then s
                   else ReplaceAllString (PII_Regex p) s (redactionText p))"

fun matchCount :: "piiPattern list \<Rightarrow> string \<Rightarrow> int" where
  "matchCount [] s = 0"
| "matchCount (p # ps) s =
     int (length (FindAllStringIndex (PII_Regex p) s)) +
     matchCount ps (if FindAllStringIndex (PII_Regex p) s = [] then s
                    else ReplaceAllString (PII_Regex p) s (redactionText p))"

fun leafMatches :: "piiPattern list \<Rightarrow> json \<Rightarrow> int" where
  "leafMatches ps (JString s) = matchCount ps s"
| "leafMatches ps (JArray vs) = sum_list (map (leafMatches ps) vs)"
| "leafMatches ps (JObject kvs) = sum_list (map (\<lambda>kv. leafMatches ps (snd kv)) kvs)"
| "leafMatches ps v = 0"

text \<open>\<open>scrubJSON\<close>; the string conversion of a \<open>nil\<close> slice is the empty string.\<close>

definition scrubJSON :: "JSONLib \<Rightarrow> piiPattern list \<Rightarrow> bytes option \<Rightarrow> bytes option \<times> int" where
  "scrubJSON L ps raw =
     (case unmarshalAny L (rawString raw) of
        None \<Rightarrow> (case scrubString ps (rawString raw) of (result, count) \<Rightarrow> (Some result, count))
      | Some parsed \<Rightarrow>
          (case walkAndScrub ps parsed 0 of (scrubbed, count) \<Rightarrow>
             (case marshalAny L scrubbed of
                None \<Rightarrow> (raw, 0)
              | Some result \<Rightarrow> (Some result, count))))"

definition ScrubberIntercept :: "JSONLib \<Rightarrow> ScrubberInterceptor \<Rightarrow> Interceptor" where
  "ScrubberIntercept L s msg w =
     (if \<not> S_enabled s then ((IM_RawBytes msg, None), msg, w)
      else if IM_Direction msg \<noteq> DirServerToHost then ((IM_RawBytes msg, None), msg, w)
      else
        (case scrubJSON L (S_patterns s) (IM_RawBytes msg) of (scrubbed, count) \<Rightarrow>
           if count > 0
           then ((scrubbed, None),
                 msg\<lparr>IM_Metadata := Some ((metaOf msg)(MetaKeyScrubCount \<mapsto> MInt count))\<rparr>,
                 w\<lparr>W_totalScrubbed := W_totalScrubbed w + count\<rparr>)
           else ((scrubbed, None), msg, w)))"

text \<open>
  Example pattern for the evaluations below: the regular expression
  \<open>^test@example\.com$\<close>, which matches exactly one string, with the label of the
  built-in email pattern.
\<close>

definition anchoredLiteral :: "string \<Rightarrow> Regexp" where
  "anchoredLiteral lit =
     \<lparr>FindAllStringIndex = (\<lambda>s. if s = lit then [(0, length lit)] else []),
      ReplaceAllString = (\<lambda>s repl. if s = lit then repl else s)\<rparr>"

definition emailPattern :: piiPattern where
  "emailPattern = \<lparr>PII_Name = ''email'', PII_Regex = anchoredLiteral ''test@example.com'',
     PII_Label = ''email''\<rparr>"

definition keyPattern :: piiPattern where
  "keyPattern = \<lparr>PII_Name = ''key'', PII_Regex = anchoredLiteral ''sk-abcdefghij1234567890abcd'',
     PII_Label = ''api_key''\<rparr>"

subsection \<open>InterceptorChain\<close>

fun Process :: "Interceptor list \<Rightarrow> bytes option \<Rightarrow> InterceptedMessage \<Rightarrow> World \<Rightarrow>
    (bytes option \<times> string option) \<times> InterceptedMessage \<times> World" where
  "Process [] raw msg w = ((raw, None), msg, w)"
| "Process (i # is) raw msg w =
     (case i (msg\<lparr>IM_RawBytes := raw\<rparr>) w of
        ((modified, err), msg1, w1) \<Rightarrow>
          if err \<noteq> None then ((None, err), msg1, w1)
          else if modified = None then ((None, None), msg1, w1)
          else Process is modified msg1 w1)"

definition ChainProcess :: "Interceptor list \<Rightarrow> InterceptedMessage \<Rightarrow> World \<Rightarrow>
    (bytes option \<times> string option) \<times> InterceptedMessage \<times> World" where
  "ChainProcess c msg w = Process c (IM_RawBytes msg) msg w"

section \<open>Streaming proxy (proxy.go)\<close>

record Proxy =
  P_SessionID :: string
  P_chain :: "Interceptor list"

text \<open>
  \<open>sendBlockError\<close>. The error goes back to the sender: to \<open>os.Stdout\<close> for a message
  from the host, to the downstream's stdin otherwise.
\<close>

definition sendBlockError ::
  "JSONLib \<Rightarrow> Direction \<Rightarrow> InterceptedMessage \<Rightarrow> string \<Rightarrow> World \<Rightarrow> World" where
  "sendBlockError L dir msg chainErr w =
     (if Msg_ID (IM_Parsed msg) = None then w
      else
        let errBytes = MakeErrorResponse L (Msg_ID (IM_Parsed msg)) (- 32600) chainErr;
            target = (if dir = DirHostToServer then Stdout else DownStdin)
        in (case writeTo target (rawString errBytes @ [CHR 0x0A]) w of
              (err, w1) \<Rightarrow>
                let w2 = (if err \<noteq> None
                          then w1\<lparr>W_slog := W_slog w1 @ [''failed to send block error'']\<rparr>
                          else w1)
                in w2\<lparr>W_slog := W_slog w2 @ [''message blocked'']\<rparr>))"

text \<open>
  The body of the loop of \<open>pipeMessages\<close> for one line delivered by the scanner (the
  line without its newline). The first component is \<open>Some\<close> error when the loop returns
  that error, \<open>None\<close> when it goes on to the next line.
\<close>

definition pipeLine ::
  "JSONLib \<Rightarrow> Proxy \<Rightarrow> Stream \<Rightarrow> Direction \<Rightarrow> bytes \<Rightarrow> World \<Rightarrow> string option \<times> World" where
  "pipeLine L p dst dir line w =
     (if W_cancelled w then (Some ''context canceled'', w)
      else if length line = 0 then (None, w)
      else
        (case ParseMessage L line of
           (parsed, parseErr) \<Rightarrow>
             let msg = \<lparr>IM_Timestamp = W_now w, IM_SessionID = P_SessionID p, IM_Direction = dir,
                        IM_RawBytes = Some line, IM_Parsed = parsed, IM_ParseErr = parseErr,
                        IM_Metadata = None\<rparr>
             in
             if parseErr \<noteq> None then
               (case writeTo dst (line @ [CHR 0x0A])
                       (w\<lparr>W_slog := W_slog w @ [''unparseable message, forwarding raw'']\<rparr>) of
                  (err, w1) \<Rightarrow>
                    if err \<noteq> None then (Some (''write: '' @ the err), w1) else (None, w1))
             else
               (case ChainProcess (P_chain p) msg w of
                  ((result, chainErr), msg1, w1) \<Rightarrow>
                    if chainErr \<noteq> None
                    then (None, sendBlockError L dir msg1 (the chainErr) w1)
                    else if result = None
                    then (None, w1\<lparr>W_slog := W_slog w1 @ [''message dropped'']\<rparr>)
                    else
                      (case writeTo dst (the result @ [CHR 0x0A]) w1 of
                         (err, w2) \<Rightarrow>
                           if err \<noteq> None then (Some (''write: '' @ the err), w2)
                           else (None, w2)))))"

text \<open>
  \<open>pipeMessages\<close> over the lines the scanner delivers; \<open>scanErr\<close> is what
  \<open>scanner.Err()\<close> returns when the input ends.
\<close>

fun pipeMessages ::
  "JSONLib \<Rightarrow> Proxy \<Rightarrow> bytes list \<Rightarrow> string option \<Rightarrow> Stream \<Rightarrow> Direction \<Rightarrow> World \<Rightarrow>
     string option \<times> World" where
  "pipeMessages L p [] scanErr dst dir w = (scanErr, w)"
| "pipeMessages L p (line # rest) scanErr dst dir w =
     (case pipeLine L p dst dir line w of
        (Some err, w1) \<Rightarrow> (Some err, w1)
      | (None, w1) \<Rightarrow> pipeMessages L p rest scanErr dst dir w1)"

text \<open>
  The streams of a pump: \<open>Run\<close> gives the host-to-server pump the downstream's stdin as
  destination and the other pump \<open>os.Stdout\<close>; \<open>senderOf\<close> is the stream on which
  \<open>sendBlockError\<close> answers. \<open>streamOut\<close> reads the writes a stream has received.
\<close>

definition streamOut :: "Stream \<Rightarrow> World \<Rightarrow> bytes list" where
  "streamOut st w = (case st of Stdout \<Rightarrow> W_stdout w | DownStdin \<Rightarrow> W_downStdin w)"

definition pumpDst :: "Direction \<Rightarrow> Stream" where
  "pumpDst dir = (if dir = DirHostToServer then DownStdin else Stdout)"

definition senderOf :: "Direction \<Rightarrow> Stream" where
  "senderOf dir = (if dir = DirHostToServer then Stdout else DownStdin)"

text \<open>
  The tool name and the verdict that \<open>PolicyInterceptor.Intercept\<close> computes for a
  parsed line.
\<close>

definition policyToolName :: "JSONLib \<Rightarrow> JSONRPCMessage \<Rightarrow> string" where
  "policyToolName L parsed =
     (if Msg_Method parsed = ''tools/call'' then ExtractToolName L (Msg_Params parsed) else [])"

definition policyVerdict :: "JSONLib \<Rightarrow> Rule list \<Rightarrow> Direction \<Rightarrow> JSONRPCMessage \<Rightarrow> bytes \<Rightarrow> MatchResult" where
  "policyVerdict L rules dir parsed line =
     Evaluate rules dir (Msg_Method parsed) (policyToolName L parsed) line"

section \<open>Approval coordinator\<close>
























section \<open>Tool analytics and pruning (tool_analytics_interceptor.go)\<close>

text \<open>
  The interceptor's own state: the pending \<open>tools/list\<close> request ids, the calls of
  \<open>RegisterTools\<close> that succeeded, and the lines of its logger. The store is
  represented by what its two methods return. The decoders and encoders of
  \<open>encoding/json\<close> for the types used here, and \<open>sort.Slice\<close>, which is not stable,
  are parameters.
\<close>

definition MetaKeyToolsPruned :: string where
  "MetaKeyToolsPruned = ''tools_pruned''"

record PruneConfig =
  PC_UnusedSessions :: int
  PC_KeepTopK :: int
  PC_AlwaysKeep :: "string list"

definition enabled :: "PruneConfig \<Rightarrow> bool" where
  "enabled c = (PC_UnusedSessions c > 0 \<or> PC_KeepTopK c > 0)"

record pendingRequest =
  PR_sessionID :: string
  PR_timestamp :: nat

record ToolRecord =
  TR_SessionID :: string
  TR_ToolName :: string
  TR_Description :: string

record toolWithUsage =
  TU_raw :: bytes
  TU_name :: string
  TU_count :: int

record ToolsLib =
  unmarshalToolsList :: "bytes \<Rightarrow> bytes list option"
  unmarshalToolInfo :: "bytes \<Rightarrow> (string \<times> string) option"
  unmarshalToolName :: "bytes \<Rightarrow> string option"
  unmarshalRawMap :: "bytes \<Rightarrow> (string \<rightharpoonup> bytes) option option"
  marshalRawList :: "bytes list \<Rightarrow> bytes option"
  marshalRawMap :: "(string \<rightharpoonup> bytes) \<Rightarrow> bytes option"
  sortSlice :: "toolWithUsage list \<Rightarrow> toolWithUsage list"

record ToolStore =
  RegisterToolsFails :: bool
  GetToolUsageCounts :: "int \<Rightarrow> (string \<rightharpoonup> int) option"

record ToolState =
  TS_pendingIDs :: "string \<rightharpoonup> pendingRequest"
  TS_registered :: "(string \<times> ToolRecord list) list"
  TS_log :: "string list"

text \<open>A call either returns or panics (an assignment to an entry of a \<open>nil\<close> map).\<close>

datatype 'a outcome = Panics | Returns 'a

text \<open>\<open>usageCounts[name]\<close>: a missing key reads as zero.\<close>

definition usageCount :: "(string \<rightharpoonup> int) \<Rightarrow> string \<Rightarrow> int" where
  "usageCount usageCounts name = (case usageCounts name of None \<Rightarrow> 0 | Some c \<Rightarrow> c)"

text \<open>
  The first loop of \<open>applyPruning\<close>: a tool that does not parse goes to \<open>kept\<close>, the
  others to \<open>toolInfos\<close>, both in the order of the input.
\<close>

fun parseTools :: "ToolsLib \<Rightarrow> (string \<rightharpoonup> int) \<Rightarrow> bytes list \<Rightarrow> bytes list \<times> toolWithUsage list" where
  "parseTools TL usageCounts [] = ([], [])"
| "parseTools TL usageCounts (raw # rest) =
     (case parseTools TL usageCounts rest of
        (kept, toolInfos) \<Rightarrow>
          (case unmarshalToolName TL raw of
             None \<Rightarrow> (raw # kept, toolInfos)
           | Some name \<Rightarrow>
               (kept, \<lparr>TU_raw = raw, TU_name = name, TU_count = usageCount usageCounts name\<rparr>
                        # toolInfos)))"

text \<open>\<open>applyPruning\<close>; the maps to \<open>bool\<close> are the sets of their true keys.\<close>

definition applyPruning ::
  "ToolsLib \<Rightarrow> PruneConfig \<Rightarrow> bytes list \<Rightarrow> (string \<rightharpoonup> int) \<Rightarrow> bytes list \<times> bytes list" where
  "applyPruning TL cfg tools usageCounts =
     (let alwaysKeep = set (PC_AlwaysKeep cfg);
          (kept0, toolInfos) = parseTools TL usageCounts tools;
          keepSet1 =
            (if PC_UnusedSessions cfg > 0
             then set (map TU_name
                        (filter (\<lambda>ti. TU_name ti \<in> alwaysKeep \<or> TU_count ti > 0) toolInfos))
             else set (map TU_name toolInfos));
          keepSet2 =
            (if PC_KeepTopK cfg > 0
             then
               (let inSet = filter (\<lambda>ti. TU_name ti \<in> keepSet1 \<and> TU_name ti \<notin> alwaysKeep)
                              toolInfos
                in if int (length inSet) > PC_KeepTopK cfg
                   then alwaysKeep \<union>
                        set (map TU_name (take (nat (PC_KeepTopK cfg)) (sortSlice TL inSet)))
                   else keepSet1)
             else keepSet1);
          keepSet = keepSet2 \<union> alwaysKeep
      in (kept0 @ map TU_raw (filter (\<lambda>ti. TU_name ti \<in> keepSet) toolInfos),
          map TU_raw (filter (\<lambda>ti. TU_name ti \<notin> keepSet) toolInfos)))"

definition rebuildResponse ::
  "JSONLib \<Rightarrow> ToolsLib \<Rightarrow> InterceptedMessage \<Rightarrow> bytes list \<Rightarrow> bytes option outcome" where
  "rebuildResponse L TL msg keptTools =
     (case unmarshalRawMap TL (rawString (Msg_Result (IM_Parsed msg))) of
        None \<Rightarrow> Returns (IM_RawBytes msg)
      | Some fullResult \<Rightarrow>
          (case marshalRawList TL keptTools of
             None \<Rightarrow> Returns (IM_RawBytes msg)
           | Some toolsJSON \<Rightarrow>
               (case fullResult of
                  None \<Rightarrow> Panics
                | Some m \<Rightarrow>
                    (case marshalRawMap TL (m(''tools'' \<mapsto> toolsJSON)) of
                       None \<Rightarrow> Returns (IM_RawBytes msg)
                     | Some newResult \<Rightarrow>
                         (case marshalMessage L
                                 \<lparr>Msg_JSONRPC = ''2.0'', Msg_ID = Msg_ID (IM_Parsed msg),
                                  Msg_Method = [], Msg_Params = None,
                                  Msg_Result = Some newResult, Msg_Error = None\<rparr> of
                            None \<Rightarrow> Returns (IM_RawBytes msg)
                          | Some rebuilt \<Rightarrow> Returns (Some rebuilt))))))"

text \<open>The loop of \<open>handleToolsListResponse\<close> that builds the records to register.\<close>

fun toolRecords :: "ToolsLib \<Rightarrow> string \<Rightarrow> bytes list \<Rightarrow> ToolRecord list" where
  "toolRecords TL session [] = []"
| "toolRecords TL session (toolRaw # rest) =
     (case unmarshalToolInfo TL toolRaw of
        None \<Rightarrow> toolRecords TL session rest
      | Some (name, description) \<Rightarrow>
          \<lparr>TR_SessionID = session, TR_ToolName = name, TR_Description = description\<rparr>
            # toolRecords TL session rest)"

definition handleToolsListResponse ::
  "JSONLib \<Rightarrow> ToolsLib \<Rightarrow> ToolStore \<Rightarrow> PruneConfig \<Rightarrow> InterceptedMessage \<Rightarrow> pendingRequest \<Rightarrow>
   ToolState \<Rightarrow> ((bytes option \<times> string option) \<times> InterceptedMessage \<times> ToolState) outcome" where
  "handleToolsListResponse L TL store cfg msg pending st =
     (case Msg_Result (IM_Parsed msg) of
        None \<Rightarrow> Returns ((IM_RawBytes msg, None), msg, st)
      | Some resultRaw \<Rightarrow>
          (case unmarshalToolsList TL resultRaw of
             None \<Rightarrow> Returns ((IM_RawBytes msg, None), msg,
                        st\<lparr>TS_log := TS_log st @ [''failed to parse tools/list result'']\<rparr>)
           | Some tools \<Rightarrow>
               let records = toolRecords TL (PR_sessionID pending) tools;
                   st1 = st\<lparr>TS_log := TS_log st @ [''tools/list response'']\<rparr>;
                   st2 = (if length records > 0
                          then (if RegisterToolsFails store
                                then st1\<lparr>TS_log := TS_log st1 @ [''failed to register tools'']\<rparr>
                                else st1\<lparr>TS_registered := TS_registered st1 @
                                                            [(PR_sessionID pending, records)]\<rparr>)
                          else st1)
               in
               if \<not> enabled cfg then Returns ((IM_RawBytes msg, None), msg, st2)
               else
                 (case GetToolUsageCounts store (PC_UnusedSessions cfg) of
                    None \<Rightarrow> Returns ((IM_RawBytes msg, None), msg,
                      st2\<lparr>TS_log := TS_log st2 @ [''failed to get usage counts for pruning'']\<rparr>)
                  | Some usageCounts \<Rightarrow>
                      (case applyPruning TL cfg tools usageCounts of
                         (kept, pruned) \<Rightarrow>
                           if length pruned = 0 then Returns ((IM_RawBytes msg, None), msg, st2)
                           else
                             let msg1 = msg\<lparr>IM_Metadata := Some ((metaOf msg)
                                          (MetaKeyToolsPruned \<mapsto> MInt (int (length pruned))))\<rparr>;
                                 st3 = st2\<lparr>TS_log := TS_log st2 @ [''pruned tools from response'']\<rparr>
                             in (case rebuildResponse L TL msg1 kept of
                                   Panics \<Rightarrow> Panics
                                 | Returns b \<Rightarrow> Returns ((b, None), msg1, st3))))))"

definition ToolAnalyticsIntercept ::
  "JSONLib \<Rightarrow> ToolsLib \<Rightarrow> ToolStore \<Rightarrow> PruneConfig \<Rightarrow> InterceptedMessage \<Rightarrow> ToolState \<Rightarrow>
   ((bytes option \<times> string option) \<times> InterceptedMessage \<times> ToolState) outcome" where
  "ToolAnalyticsIntercept L TL store cfg msg st =
     (if IM_ParseErr msg \<noteq> None then Returns ((IM_RawBytes msg, None), msg, st)
      else if IM_Direction msg = DirHostToServer \<and> Msg_Method (IM_Parsed msg) = ''tools/list''
      then (case Msg_ID (IM_Parsed msg) of
              None \<Rightarrow> Returns ((IM_RawBytes msg, None), msg, st)
            | Some idStr \<Rightarrow> Returns ((IM_RawBytes msg, None), msg,
                st\<lparr>TS_pendingIDs := (TS_pendingIDs st)(idStr \<mapsto>
                      \<lparr>PR_sessionID = IM_SessionID msg, PR_timestamp = IM_Timestamp msg\<rparr>)\<rparr>))
      else if IM_Direction msg = DirServerToHost \<and> Kind (IM_Parsed msg) = KindResponse \<and>
              Msg_ID (IM_Parsed msg) \<noteq> None
      then (case TS_pendingIDs st (rawString (Msg_ID (IM_Parsed msg))) of
              None \<Rightarrow> Returns ((IM_RawBytes msg, None), msg, st)
            | Some pending \<Rightarrow>
                handleToolsListResponse L TL store cfg msg pending
                  (st\<lparr>TS_pendingIDs := (TS_pendingIDs st)(rawString (Msg_ID (IM_Parsed msg)) := None)\<rparr>))
      else Returns ((IM_RawBytes msg, None), msg, st))"



section \<open>Example inputs\<close>

text \<open>Example rules, in the style of the repository's policy tests.\<close>

definition ruleAuditAll :: Rule where
  "ruleAuditAll = \<lparr>Rule_Name = ''audit-all'', Rule_Action = ActionAudit, Rule_Methods = [],
     Rule_Tools = [], Rule_Direction = [], Rule_compiledPatterns = []\<rparr>"

definition ruleApproveCalls :: Rule where
  "ruleApproveCalls = \<lparr>Rule_Name = ''approve-calls'', Rule_Action = ActionRequireApproval,
     Rule_Methods = [''tools/call''], Rule_Tools = [], Rule_Direction = [],
     Rule_compiledPatterns = []\<rparr>"

definition ruleApproveDelete :: Rule where
  "ruleApproveDelete = \<lparr>Rule_Name = ''approve-delete'', Rule_Action = ActionRequireApproval,
     Rule_Methods = [''tools/call''], Rule_Tools = [''delete_file''], Rule_Direction = [],
     Rule_compiledPatterns = []\<rparr>"

definition ruleBlockShell :: Rule where
  "ruleBlockShell = \<lparr>Rule_Name = ''block-shell'', Rule_Action = ActionDeny,
     Rule_Methods = [''tools/call''], Rule_Tools = [''execute_command''], Rule_Direction = [],
     Rule_compiledPatterns = []\<rparr>"

text \<open>
  The lines of the scenarios evaluated below, and the values of the library functions at
  these inputs.
\<close>

definition denyLine :: bytes where
  \<open>denyLine = ''{"jsonrpc":"2.0","id":9,"method":"tools/call","params":{"name":"execute_command"}}''\<close>

definition denyNotification :: bytes where
  \<open>denyNotification = ''{"jsonrpc":"2.0","method":"tools/call","params":{"name":"execute_command"}}''\<close>

definition denyParams :: bytes where
  \<open>denyParams = ''{"name":"execute_command"}''\<close>

definition denyResponse :: bytes where
  \<open>denyResponse =
     ''{"jsonrpc":"2.0","id":9,"error":{"code":-32600,"message":"blocked by policy rule '' @
     [CHR 0x5C, CHR 0x22] @ ''block-shell'' @ [CHR 0x5C, CHR 0x22] @ ''"}}''\<close>

definition emailLine :: bytes where
  \<open>emailLine = ''{"email":"test@example.com"}''\<close>

definition emailScrubbed :: bytes where
  \<open>emailScrubbed = ''{"email":"[REDACTED:email]"}''\<close>

definition exampleLib :: JSONLib where
  "exampleLib = \<lparr>
     unmarshalMessage = (\<lambda>raw.
        if raw = denyLine then
          (\<lparr>Msg_JSONRPC = ''2.0'', Msg_ID = Some ''9'', Msg_Method = ''tools/call'',
            Msg_Params = Some denyParams, Msg_Result = None, Msg_Error = None\<rparr>, None)
        else if raw = denyNotification then
          (\<lparr>Msg_JSONRPC = ''2.0'', Msg_ID = None, Msg_Method = ''tools/call'',
            Msg_Params = Some denyParams, Msg_Result = None, Msg_Error = None\<rparr>, None)
        else if raw = emailLine then (zeroJSONRPCMessage, None)
        else (zeroJSONRPCMessage, Some ''invalid character'')),
     marshalMessage = (\<lambda>m.
        if m = \<lparr>Msg_JSONRPC = ''2.0'', Msg_ID = Some ''9'', Msg_Method = [], Msg_Params = None,
                 Msg_Result = None,
                 Msg_Error = Some \<lparr>Err_Code = - 32600,
                    Err_Message = ''blocked by policy rule '' @ [CHR 0x22] @ ''block-shell'' @ [CHR 0x22],
                    Err_Data = None\<rparr>\<rparr>
        then Some denyResponse else None),
     unmarshalName = (\<lambda>raw. if raw = denyParams then Some ''execute_command'' else None),
     unmarshalAny = (\<lambda>raw.
        if raw = emailLine then Some (JObject [(''email'', JString ''test@example.com'')])
        else None),
     marshalAny = (\<lambda>v.
        if v = JObject [(''email'', JString ''[REDACTED:email]'')] then Some emailScrubbed
        else None),
     strconvQuote = (\<lambda>s. [CHR 0x22] @ s @ [CHR 0x22])\<rparr>"

definition exampleScrubber :: ScrubberInterceptor where
  "exampleScrubber = \<lparr>S_patterns = [emailPattern], S_enabled = True\<rparr>"

definition exampleProxy :: Proxy where
  "exampleProxy = \<lparr>P_SessionID = ''s1'',
     P_chain = [PolicyIntercept exampleLib [ruleAuditAll, ruleBlockShell],
                ScrubberIntercept exampleLib exampleScrubber,
                LoggingIntercept exampleLib]\<rparr>"

definition emptyWorld :: World where
  "emptyWorld = \<lparr>W_stdout = [], W_downStdin = [], W_totalScrubbed = 0, W_writeCh = [],
     W_writeCap = 1024, W_published = [], W_slog = [], W_broken = (\<lambda>st. False),
     W_cancelled = False, W_now = 0\<rparr>"




















section \<open>Properties of the policy evaluator\<close>

lemmas example_rule_defs =
  ruleAuditAll_def ruleApproveCalls_def ruleApproveDelete_def ruleBlockShell_def
  ActionDeny_def ActionRequireApproval_def ActionAudit_def

lemmas example_defs = denyLine_def denyNotification_def denyParams_def denyResponse_def
  emailLine_def emailScrubbed_def exampleLib_def exampleScrubber_def exampleProxy_def
  emptyWorld_def emailPattern_def anchoredLiteral_def
  DirHostToServer_def DirServerToHost_def

lemma action_consts_distinct:
  "ActionDeny \<noteq> ActionRequireApproval" "ActionDeny \<noteq> ActionAudit"
  "ActionRequireApproval \<noteq> ActionAudit" "ActionDeny \<noteq> []"
  "ActionRequireApproval \<noteq> []" "ActionAudit \<noteq> []"
  by (simp_all add: ActionDeny_def ActionRequireApproval_def ActionAudit_def)

lemma evalStep_known:
  "knownAction (MR_Action acc) \<Longrightarrow> knownAction (MR_Action (evalStep d m t p acc r))"
  by (auto simp: evalStep_def knownAction_def Let_def)

lemma fold_action:
  "knownAction (MR_Action acc) \<Longrightarrow>
   MR_Action (foldl (evalStep d m t p) acc rs) =
     (if MR_Action acc = ActionDeny \<or> (\<exists>r \<in> set (matching rs d m t p). Rule_Action r = ActionDeny)
        then ActionDeny
      else if MR_Action acc = ActionRequireApproval \<or>
              (\<exists>r \<in> set (matching rs d m t p). Rule_Action r = ActionRequireApproval)
        then ActionRequireApproval
      else if MR_Action acc = ActionAudit \<or> (\<exists>r \<in> set (matching rs d m t p). Rule_Action r = ActionAudit)
        then ActionAudit
      else [])"
proof (induction rs arbitrary: acc)
  case Nil
  then show ?case by (auto simp: matching_def knownAction_def)
next
  case (Cons r rs)
  have k: "knownAction (MR_Action (evalStep d m t p acc r))"
    using Cons.prems by (rule evalStep_known)
  show ?case
    using Cons.prems action_consts_distinct
    apply (simp only: foldl_Cons Cons.IH [OF k])
    apply (auto simp: matching_def evalStep_def Let_def knownAction_def)
    done
qed

text \<open>
  Claim C1. For every ordered rule list and every message, the final action of
  \<open>Engine.Evaluate\<close> is the highest-precedence action among the rules that match the
  message, with deny above require\_approval above audit above none; in particular a
  matching deny rule fixes the action to deny whatever else matches, before or after it.
\<close>

theorem evaluate_action_precedence:
  "MR_Action (Evaluate rules d m t p) = highestAction (matching rules d m t p)"
  unfolding Evaluate_def highestAction_def
  using fold_action [of zeroMatchResult d m t p rules] action_consts_distinct
  by (simp add: knownAction_def zeroMatchResult_def)

theorem evaluate_action_precedence_witness:
  "MR_Action (Evaluate [ruleAuditAll, ruleApproveCalls, ruleBlockShell, ruleApproveDelete]
      ''host_to_server'' ''tools/call'' ''execute_command'' ''{}'') = ''deny''"
  using evaluate_action_precedence [of "[ruleAuditAll, ruleApproveCalls, ruleBlockShell, ruleApproveDelete]"
      "''host_to_server''" "''tools/call''" "''execute_command''" "''{}''"]
  by (simp add: highestAction_def matching_def ruleMatches_def example_rule_defs)

lemma find_append_cases:
  "find P (xs @ ys) = (case find P xs of None \<Rightarrow> find P ys | Some x \<Rightarrow> Some x)"
  by (induction xs) auto

lemma fold_deny_stuck:
  "MR_Action acc = ActionDeny \<Longrightarrow>
   MR_DenyRule (foldl (evalStep d m t p) acc rs) = MR_DenyRule acc \<and>
   MR_ApprovalRule (foldl (evalStep d m t p) acc rs) = MR_ApprovalRule acc"
proof (induction rs arbitrary: acc)
  case Nil
  show ?case by simp
next
  case (Cons r rs)
  have a: "MR_Action (evalStep d m t p acc r) = ActionDeny"
    using Cons.prems action_consts_distinct by (auto simp add: evalStep_def Let_def)
  have b: "MR_DenyRule (evalStep d m t p acc r) = MR_DenyRule acc"
    using Cons.prems action_consts_distinct by (auto simp add: evalStep_def Let_def)
  have c: "MR_ApprovalRule (evalStep d m t p acc r) = MR_ApprovalRule acc"
    using Cons.prems action_consts_distinct by (auto simp add: evalStep_def Let_def)
  show ?case using Cons.IH [OF a] b c by simp
qed

lemma fold_deny_rule:
  "MR_Action acc \<noteq> ActionDeny \<Longrightarrow>
   MR_DenyRule (foldl (evalStep d m t p) acc rs) =
     (case find (\<lambda>r. Rule_Action r = ActionDeny) (matching rs d m t p) of
        None \<Rightarrow> MR_DenyRule acc | Some r \<Rightarrow> Rule_Name r)"
proof (induction rs arbitrary: acc)
  case Nil
  show ?case by (simp add: matching_def)
next
  case (Cons r rs)
  show ?case
  proof (cases "ruleMatches r d m t p \<and> Rule_Action r = ActionDeny")
    case True
    then have a: "MR_Action (evalStep d m t p acc r) = ActionDeny"
      and b: "MR_DenyRule (evalStep d m t p acc r) = Rule_Name r"
      using Cons.prems by (simp_all add: evalStep_def Let_def)
    show ?thesis using fold_deny_stuck [OF a, of d m t p rs] b True
      by (simp add: matching_def)
  next
    case False
    then have a: "MR_Action (evalStep d m t p acc r) \<noteq> ActionDeny"
      and b: "MR_DenyRule (evalStep d m t p acc r) = MR_DenyRule acc"
      using Cons.prems action_consts_distinct
      by (auto simp add: evalStep_def Let_def)
    show ?thesis unfolding foldl_Cons Cons.IH [OF a] b using False
      by (auto simp add: matching_def)
  qed
qed

lemma fold_approval_rule:
  "MR_Action acc \<noteq> ActionDeny \<Longrightarrow>
   MR_ApprovalRule (foldl (evalStep d m t p) acc rs) =
     (case find (\<lambda>r. Rule_Action r = ActionRequireApproval)
             (rev (takeWhile (\<lambda>r. Rule_Action r \<noteq> ActionDeny) (matching rs d m t p))) of
        None \<Rightarrow> MR_ApprovalRule acc | Some r \<Rightarrow> Rule_Name r)"
proof (induction rs arbitrary: acc)
  case Nil
  show ?case by (simp add: matching_def)
next
  case (Cons r rs)
  show ?case
  proof (cases "ruleMatches r d m t p")
    case False
    then have "evalStep d m t p acc r = acc" by (simp add: evalStep_def)
    then show ?thesis using Cons.IH [OF Cons.prems] False by (simp add: matching_def)
  next
    case True
    show ?thesis
    proof (cases "Rule_Action r = ActionDeny")
      case True
      with \<open>ruleMatches r d m t p\<close>
      have a: "MR_Action (evalStep d m t p acc r) = ActionDeny"
        and c: "MR_ApprovalRule (evalStep d m t p acc r) = MR_ApprovalRule acc"
        using Cons.prems by (simp_all add: evalStep_def Let_def)
      show ?thesis using fold_deny_stuck [OF a, of d m t p rs] c True \<open>ruleMatches r d m t p\<close>
        by (simp add: matching_def)
    next
      case False
      with \<open>ruleMatches r d m t p\<close>
      have a: "MR_Action (evalStep d m t p acc r) \<noteq> ActionDeny"
        and c: "MR_ApprovalRule (evalStep d m t p acc r) =
                  (if Rule_Action r = ActionRequireApproval then Rule_Name r
                   else MR_ApprovalRule acc)"
        using Cons.prems action_consts_distinct
        by (auto simp add: evalStep_def Let_def)
      show ?thesis unfolding foldl_Cons Cons.IH [OF a] c
        using False \<open>ruleMatches r d m t p\<close>
        by (auto simp add: matching_def find_append_cases split: option.splits)
    qed
  qed
qed

text \<open>
  What \<open>Evaluate\<close> records for every ordered rule list and every message:
  \<open>DenyRule\<close> is the name of the first matching deny rule, because the deny case
  writes it only while the action is not yet deny; \<open>ApprovalRule\<close> is written by every
  matching require\_approval rule seen while the action is not deny, so it ends as the
  name of the last such rule before the first matching deny rule.
\<close>

lemma evaluate_rule_names:
  "MR_DenyRule (Evaluate rules d m t p) = firstWithAction ActionDeny (matching rules d m t p) \<and>
   MR_ApprovalRule (Evaluate rules d m t p) =
     lastBeforeDeny ActionRequireApproval (matching rules d m t p)"
proof -
  have z: "MR_Action zeroMatchResult \<noteq> ActionDeny"
    using action_consts_distinct by (simp add: zeroMatchResult_def)
  have z1: "MR_DenyRule zeroMatchResult = []" and z2: "MR_ApprovalRule zeroMatchResult = []"
    by (simp_all add: zeroMatchResult_def)
  show ?thesis
    unfolding Evaluate_def firstWithAction_def lastBeforeDeny_def
      fold_deny_rule [OF z] fold_approval_rule [OF z] z1 z2
    by simp
qed

text \<open>
  Claim C4. The result's \<open>deny_rule\<close> is the name of the first matching rule with
  action deny, and its \<open>approval_rule\<close> is the name of the first matching rule with
  action require\_approval. The deny case of the switch keeps the first rule; the
  require\_approval case does not: with the two matching require\_approval rules
  \<open>approve-calls\<close> and \<open>approve-delete\<close>, in this order, \<open>Evaluate\<close> reports
  \<open>approve-delete\<close>, while the first matching require\_approval rule is
  \<open>approve-calls\<close>.
\<close>

theorem evaluate_two_approval_rules:
  "MR_ApprovalRule (Evaluate [ruleApproveCalls, ruleApproveDelete]
      ''host_to_server'' ''tools/call'' ''delete_file'' ''{}'') = ''approve-delete'' \<and>
   firstWithAction ActionRequireApproval (matching [ruleApproveCalls, ruleApproveDelete]
      ''host_to_server'' ''tools/call'' ''delete_file'' ''{}'') = ''approve-calls''"
  by (simp add: Evaluate_def evalStep_def ruleMatches_def zeroMatchResult_def
      firstWithAction_def matching_def Let_def example_rule_defs)

section \<open>Properties of the scrubber\<close>

lemma mapStrings_keys: "objectKeys (mapStrings f v) = objectKeys v"
proof (induction f v rule: mapStrings.induct)
  case (3 f kvs)
  have "map (\<lambda>x. fst x # objectKeys (mapStrings f (snd x))) kvs =
        map (\<lambda>kv. fst kv # objectKeys (snd kv)) kvs"
  proof (rule map_cong [OF refl])
    fix x assume "x \<in> set kvs"
    then show "fst x # objectKeys (mapStrings f (snd x)) = fst x # objectKeys (snd x)"
      using 3 by simp
  qed
  then have "concat (map (\<lambda>x. fst x # objectKeys (mapStrings f (snd x))) kvs) =
        concat (map (\<lambda>kv. fst kv # objectKeys (snd kv)) kvs)"
    by (rule arg_cong)
  then show ?case by (simp add: comp_def)
next
  case (2 f vs)
  then show ?case by (simp add: comp_def cong: map_cong)
qed simp_all

lemma scrub_fold:
  "foldl scrubStep (s, n) ps = (redactAll ps s, n + matchCount ps s)"
proof (induction ps arbitrary: s n)
  case Nil
  show ?case by simp
next
  case (Cons p ps)
  show ?case
  proof (cases "FindAllStringIndex (PII_Regex p) s = []")
    case True
    then have "scrubStep (s, n) p = (s, n)" by (simp add: scrubStep_def)
    then show ?thesis using True Cons.IH [of s n] by simp
  next
    case False
    then have "scrubStep (s, n) p =
        (ReplaceAllString (PII_Regex p) s (redactionText p),
         n + int (length (FindAllStringIndex (PII_Regex p) s)))"
      by (simp add: scrubStep_def redactionText_def Let_def)
    then show ?thesis
      using False Cons.IH [of "ReplaceAllString (PII_Regex p) s (redactionText p)"
          "n + int (length (FindAllStringIndex (PII_Regex p) s))"]
      by simp
  qed
qed

lemma scrubString_redactAll:
  "scrubString ps s = (redactAll ps s, matchCount ps s)"
  using scrub_fold [of s 0 ps] by (simp add: scrubString_def)

lemma walk_redactAll:
  "walkAndScrub ps v c = (mapStrings (redactAll ps) v, c + leafMatches ps v)"
  "walkElems ps vs c = (map (mapStrings (redactAll ps)) vs, c + sum_list (map (leafMatches ps) vs))"
  "walkFields ps kvs c = (map (\<lambda>kv. (fst kv, mapStrings (redactAll ps) (snd kv))) kvs,
      c + sum_list (map (\<lambda>kv. leafMatches ps (snd kv)) kvs))"
  by (induction ps v c and ps vs c and ps kvs c rule: walkAndScrub_walkElems_walkFields.induct)
     (simp_all add: scrubString_redactAll)

text \<open>
  Claim C6. For every JSON value and every list of configured patterns, the recursive
  walk of the redactor returns the value in which each string leaf is replaced by its
  redaction (every pattern, in the configured order, substituting \<open>[REDACTED:<label>]\<close>
  for all its matches) and nothing else is changed, and it adds the number of matches
  to the counter. Object keys are never replaced: every object key of the input, at any
  depth, is a key of the output, in the same place.
\<close>

theorem walkAndScrub_keeps_keys:
  "walkAndScrub ps v c = (mapStrings (redactAll ps) v, c + leafMatches ps v) \<and>
   objectKeys (fst (walkAndScrub ps v c)) = objectKeys v"
  by (simp add: walk_redactAll mapStrings_keys)

theorem walkAndScrub_keeps_keys_witness:
  "walkAndScrub [keyPattern, emailPattern]
      (JObject [(''email'', JString ''test@example.com''),
                (''test@example.com'',
                   JArray [JString ''sk-abcdefghij1234567890abcd'', JNumber ''1'', JString ''ok''])]) 0 =
     (JObject [(''email'', JString ''[REDACTED:email]''),
               (''test@example.com'',
                   JArray [JString ''[REDACTED:api_key]'', JNumber ''1'', JString ''ok''])], 2)"
  using walkAndScrub_keeps_keys [of "[keyPattern, emailPattern]"
      "JObject [(''email'', JString ''test@example.com''),
                (''test@example.com'',
                   JArray [JString ''sk-abcdefghij1234567890abcd'', JNumber ''1'', JString ''ok''])]" 0]
  by (simp add: redactionText_def keyPattern_def emailPattern_def anchoredLiteral_def)

text \<open>
  Claim C7. For every message whose direction is host to server, the scrubber interceptor
  returns the message bytes unchanged and leaves the metadata (so no scrub count is set)
  and the shared state as they are, whatever the contents of the message and whether or
  not scrubbing is enabled.
\<close>

theorem scrubber_identity_host_to_server:
  "IM_Direction msg = DirHostToServer \<Longrightarrow>
   ScrubberIntercept L s msg w = ((IM_RawBytes msg, None), msg, w)"
  by (simp add: ScrubberIntercept_def DirHostToServer_def DirServerToHost_def)

theorem scrubber_identity_host_to_server_witness:
  "ScrubberIntercept exampleLib exampleScrubber
     \<lparr>IM_Timestamp = 0, IM_SessionID = ''s1'', IM_Direction = DirHostToServer,
      IM_RawBytes = Some emailLine, IM_Parsed = zeroJSONRPCMessage, IM_ParseErr = None,
      IM_Metadata = None\<rparr> emptyWorld =
   ((Some emailLine, None),
     \<lparr>IM_Timestamp = 0, IM_SessionID = ''s1'', IM_Direction = DirHostToServer,
      IM_RawBytes = Some emailLine, IM_Parsed = zeroJSONRPCMessage, IM_ParseErr = None,
      IM_Metadata = None\<rparr>, emptyWorld)"
  using scrubber_identity_host_to_server [of
     "\<lparr>IM_Timestamp = 0, IM_SessionID = ''s1'', IM_Direction = DirHostToServer,
      IM_RawBytes = Some emailLine, IM_Parsed = zeroJSONRPCMessage, IM_ParseErr = None,
      IM_Metadata = None\<rparr>" exampleLib exampleScrubber emptyWorld]
  by simp

section \<open>Properties of the pump\<close>

text \<open>
  Claim C10. For every empty line delivered by the scanner, the body of the pump's loop
  leaves the whole shared state unchanged: nothing is written to either endpoint, the
  interceptor chain is not run and nothing is logged; when the context is not cancelled
  the loop simply goes on with the next line. A non-empty line that fails to parse is
  instead written verbatim, followed by a newline, to the destination.
\<close>

theorem pipeLine_empty_line:
  "snd (pipeLine L p dst dir [] w) = w \<and>
   (\<not> W_cancelled w \<longrightarrow>
      pipeMessages L p ([] # rest) scanErr dst dir w = pipeMessages L p rest scanErr dst dir w) \<and>
   (line \<noteq> [] \<and> \<not> W_cancelled w \<and> \<not> W_broken w dst \<and> snd (ParseMessage L line) \<noteq> None \<longrightarrow>
      fst (pipeLine L p dst dir line w) = None \<and>
      streamOut dst (snd (pipeLine L p dst dir line w)) = streamOut dst w @ [line @ [CHR 0x0A]])"
  by (auto simp: pipeLine_def writeTo_def streamOut_def Let_def split: prod.splits Stream.splits)

theorem pipeLine_empty_line_witness:
  "snd (pipeLine exampleLib exampleProxy DownStdin DirHostToServer [] emptyWorld) = emptyWorld \<and>
   pipeMessages exampleLib exampleProxy [[], ''not json''] None DownStdin DirHostToServer emptyWorld =
     pipeMessages exampleLib exampleProxy [''not json''] None DownStdin DirHostToServer emptyWorld \<and>
   streamOut DownStdin
     (snd (pipeLine exampleLib exampleProxy DownStdin DirHostToServer ''not json'' emptyWorld)) =
     [''not json'' @ [CHR 0x0A]]"
  using pipeLine_empty_line [of exampleLib exampleProxy DownStdin DirHostToServer emptyWorld
      "[''not json'']" None "''not json''"]
  by (simp add: ParseMessage_def example_defs streamOut_def)

lemma evalStep_matched_nonempty:
  "(MR_Action acc \<noteq> [] \<longrightarrow> MR_MatchedRules acc \<noteq> []) \<Longrightarrow>
   MR_Action (evalStep d m t p acc r) \<noteq> [] \<longrightarrow> MR_MatchedRules (evalStep d m t p acc r) \<noteq> []"
  by (auto simp: evalStep_def Let_def)

lemma fold_matched_nonempty:
  "(MR_Action acc \<noteq> [] \<longrightarrow> MR_MatchedRules acc \<noteq> []) \<Longrightarrow>
   MR_Action (foldl (evalStep d m t p) acc rs) \<noteq> [] \<longrightarrow>
   MR_MatchedRules (foldl (evalStep d m t p) acc rs) \<noteq> []"
proof (induction rs arbitrary: acc)
  case Nil
  then show ?case by simp
next
  case (Cons r rs)
  show ?case using Cons.IH [OF evalStep_matched_nonempty [OF Cons.prems]] by simp
qed

lemma evaluate_deny_matched:
  "MR_Action (Evaluate rules d m t p) = ActionDeny \<Longrightarrow> MR_MatchedRules (Evaluate rules d m t p) \<noteq> []"
  using fold_matched_nonempty [of zeroMatchResult d m t p rules] action_consts_distinct
  by (simp add: Evaluate_def zeroMatchResult_def)

lemma policy_deny_blocks:
  assumes "IM_ParseErr msg = None"
    and "MR_Action (policyVerdict L rules (IM_Direction msg) (IM_Parsed msg) (rawString (IM_RawBytes msg))) = ActionDeny"
  shows "fst (PolicyIntercept L rules msg w) =
           (None, Some (''blocked by policy rule '' @ strconvQuote L (MR_DenyRule
              (policyVerdict L rules (IM_Direction msg) (IM_Parsed msg) (rawString (IM_RawBytes msg))))))"
    and "snd (snd (PolicyIntercept L rules msg w)) = w"
    and "IM_Parsed (fst (snd (PolicyIntercept L rules msg w))) = IM_Parsed msg"
  using assms evaluate_deny_matched [of rules "IM_Direction msg" "Msg_Method (IM_Parsed msg)"
      "policyToolName L (IM_Parsed msg)" "rawString (IM_RawBytes msg)"]
  by (simp_all add: PolicyIntercept_def policyVerdict_def policyToolName_def Let_def)

text \<open>
  Claim C2, as stated: every message blocked by a deny rule gets a synthesized error
  written back to its sender and is persisted with \<open>blocked = true\<close>. It fails for a
  blocked notification: the rule \<open>block-shell\<close> denies the line, and the pump leaves the
  state as it was, with nothing on either stream and nothing in the store's channel.
\<close>

theorem policy_deny_notification_counterexample:
  "MR_Action (policyVerdict exampleLib [ruleAuditAll, ruleBlockShell] DirHostToServer
      (fst (ParseMessage exampleLib denyNotification)) denyNotification) = ActionDeny \<and>
   pipeLine exampleLib exampleProxy DownStdin DirHostToServer denyNotification emptyWorld =
     (None, emptyWorld) \<and>
   W_stdout emptyWorld = [] \<and> W_writeCh emptyWorld = []"
  by (simp add: pipeLine_def ParseMessage_def ChainProcess_def PolicyIntercept_def
      sendBlockError_def policyVerdict_def policyToolName_def ExtractToolName_def Evaluate_def
      evalStep_def ruleMatches_def zeroMatchResult_def rawString_def metaOf_def Let_def
      example_defs example_rule_defs)

text \<open>
  Claim C2, amended. For every parsed line that the policy interceptor, first in the
  chain, blocks by a deny rule, nothing is written to the pump's destination; when the
  message carries an id, the synthesized error response with code -32600 and the message
  \<open>blocked by policy rule "<deny rule>"\<close>, followed by a newline, is written to the
  sender's stream; when it carries none, the state is left as it was.
\<close>

theorem policy_deny_error_to_sender:
  assumes "\<not> W_cancelled w" and "line \<noteq> []"
    and "ParseMessage L line = (parsed, None)"
    and "MR_Action (policyVerdict L rules dir parsed line) = ActionDeny"
    and "P_chain p = PolicyIntercept L rules # rest"
    and "w' = snd (pipeLine L p (pumpDst dir) dir line w)"
    and "reason = ''blocked by policy rule '' @
           strconvQuote L (MR_DenyRule (policyVerdict L rules dir parsed line))"
  shows "fst (pipeLine L p (pumpDst dir) dir line w) = None \<and>
         streamOut (pumpDst dir) w' = streamOut (pumpDst dir) w \<and>
         (Msg_ID parsed = None \<longrightarrow> w' = w) \<and>
         (Msg_ID parsed \<noteq> None \<and> \<not> W_broken w (senderOf dir) \<longrightarrow>
            streamOut (senderOf dir) w' = streamOut (senderOf dir) w @
              [rawString (MakeErrorResponse L (Msg_ID parsed) (- 32600) reason) @ [CHR 0x0A]])"
proof -
  define msg where "msg = \<lparr>IM_Timestamp = W_now w, IM_SessionID = P_SessionID p, IM_Direction = dir,
      IM_RawBytes = Some line, IM_Parsed = parsed, IM_ParseErr = None, IM_Metadata = None\<rparr>"
  have a: "IM_ParseErr msg = None" by (simp add: msg_def)
  have b: "MR_Action (policyVerdict L rules (IM_Direction msg) (IM_Parsed msg)
              (rawString (IM_RawBytes msg))) = ActionDeny"
    using assms(4) by (simp add: msg_def rawString_def)
  obtain res msg1 w1 where r: "PolicyIntercept L rules msg w = (res, msg1, w1)"
    by (cases "PolicyIntercept L rules msg w") auto
  have r1: "res = (None, Some reason)" and r2: "w1 = w" and r3: "IM_Parsed msg1 = parsed"
    using policy_deny_blocks [OF a b, of w] r assms(7) by (simp_all add: msg_def rawString_def)
  have cp: "ChainProcess (P_chain p) msg w = ((None, Some reason), msg1, w)"
    using r r1 r2 by (simp add: ChainProcess_def assms(5) msg_def)
  have pl: "pipeLine L p (pumpDst dir) dir line w = (None, sendBlockError L dir msg1 reason w)"
    using assms(1,2,3) cp by (simp add: pipeLine_def Let_def msg_def)
  show ?thesis
    using pl r3 assms(6)
    by (auto simp: sendBlockError_def writeTo_def streamOut_def pumpDst_def senderOf_def Let_def
        split: Stream.splits)
qed

theorem policy_deny_error_to_sender_witness:
  "fst (pipeLine exampleLib exampleProxy DownStdin DirHostToServer denyLine emptyWorld) = None \<and>
   W_downStdin (snd (pipeLine exampleLib exampleProxy DownStdin DirHostToServer denyLine emptyWorld)) = [] \<and>
   W_stdout (snd (pipeLine exampleLib exampleProxy DownStdin DirHostToServer denyLine emptyWorld)) =
     [denyResponse @ [CHR 0x0A]]"
  using policy_deny_error_to_sender [of emptyWorld denyLine exampleLib
      "fst (ParseMessage exampleLib denyLine)" "[ruleAuditAll, ruleBlockShell]" DirHostToServer
      exampleProxy "[ScrubberIntercept exampleLib exampleScrubber, LoggingIntercept exampleLib]"
      "snd (pipeLine exampleLib exampleProxy DownStdin DirHostToServer denyLine emptyWorld)"
      "''blocked by policy rule '' @ [CHR 0x22] @ ''block-shell'' @ [CHR 0x22]"]
  by (simp add: ParseMessage_def policyVerdict_def policyToolName_def ExtractToolName_def
      Evaluate_def evalStep_def ruleMatches_def zeroMatchResult_def MakeErrorResponse_def
      rawString_def streamOut_def pumpDst_def senderOf_def Let_def example_defs example_rule_defs)

section \<open>Properties of the approval coordinator\<close>

























section \<open>Properties of tool pruning\<close>














end
